theory Spec2Isabelle
  imports Main "HOL-Library.AList"
begin

section \<open>Values and exceptions\<close>

text \<open>
  The address book of \<^verbatim>\<open>01.py\<close> (repeated unchanged at the top of \<^verbatim>\<open>02.py\<close>) keeps
  its data in Python objects. A Python \<^verbatim>\<open>str\<close> is a sequence of Unicode code points:
  here a list of integers (what \<^verbatim>\<open>ord\<close> returns), so that \<^const>\<open>length\<close> is Python's \<^verbatim>\<open>len\<close> and
  equality of lists is equality of strings. \<open>cp\<close> is the code point of an ASCII
  character and \<open>py\<close> the Python string of an ASCII literal. Python integers are
  \<^typ>\<open>int\<close>.
\<close>

type_synonym str = "int list"

definition cp :: "char \<Rightarrow> int" where
  "cp c = of_char c"

definition py :: "string \<Rightarrow> str" where
  "py s = map cp s"

text \<open>
  Every exception the code can raise on string arguments is a \<^verbatim>\<open>ValueError\<close> (raised by
  the classes themselves or by \<^verbatim>\<open>datetime\<close>) or an \<^verbatim>\<open>OverflowError\<close> (raised by
  \<^verbatim>\<open>datetime + timedelta\<close>); each carries its message.
\<close>

datatype error = ValueError string | OverflowError string

text \<open>
  The three \<^verbatim>\<open>raise ValueError(...)\<close> statements of the classes \<^verbatim>\<open>Name\<close>,
  \<^verbatim>\<open>Phone\<close> and \<^verbatim>\<open>Birthday\<close>: the validation errors of the address book.
\<close>

definition name_required :: error where
  "name_required = ValueError ''Name is a required field''"

definition phone_invalid :: error where
  "phone_invalid = ValueError ''Phone number must be 10 digits''"

definition date_invalid :: error where
  "date_invalid = ValueError ''Invalid date format. Use DD.MM.YYYY''"

definition validation_errors :: "error list" where
  "validation_errors = [name_required, phone_invalid, date_invalid]"

section \<open>Name and Phone\<close>

text \<open>\<^verbatim>\<open>Name.__init__\<close>: the empty string is the only falsy string.\<close>

definition Name :: "str \<Rightarrow> error + str" where
  "Name v = (if v = [] then Inl name_required else Inr v)"

text \<open>
  The digits of the Unicode character database (version 14.0, that of CPython 3.11).
  The decimal digits (\<^verbatim>\<open>str.isdecimal\<close>, numeric type Decimal) come in blocks of ten
  consecutive code points with the values 0 to 9; the table lists the zero of every
  block.
\<close>

definition decimal_zeros :: "int list" where
  "decimal_zeros =
     [0x0030, 0x0660, 0x06F0, 0x07C0, 0x0966, 0x09E6, 0x0A66, 0x0AE6,
      0x0B66, 0x0BE6, 0x0C66, 0x0CE6, 0x0D66, 0x0DE6, 0x0E50, 0x0ED0,
      0x0F20, 0x1040, 0x1090, 0x17E0, 0x1810, 0x1946, 0x19D0, 0x1A80,
      0x1A90, 0x1B50, 0x1BB0, 0x1C40, 0x1C50, 0xA620, 0xA8D0, 0xA900,
      0xA9D0, 0xA9F0, 0xAA50, 0xABF0, 0xFF10, 0x104A0, 0x10D30, 0x11066,
      0x110F0, 0x11136, 0x111D0, 0x112F0, 0x11450, 0x114D0, 0x11650, 0x116C0,
      0x11730, 0x118E0, 0x11950, 0x11C50, 0x11D50, 0x11DA0, 0x16A60, 0x16AC0,
      0x16B50, 0x1D7CE, 0x1D7D8, 0x1D7E2, 0x1D7EC, 0x1D7F6, 0x1E140, 0x1E2F0,
      0x1E950, 0x1FBF0]"

definition decimal_value :: "int \<Rightarrow> int option" where
  "decimal_value c =
     (case filter (\<lambda>z. z \<le> c \<and> c \<le> z + 9) decimal_zeros of
        [] \<Rightarrow> None
      | z # _ \<Rightarrow> Some (c - z))"

definition isdecimal_char :: "int \<Rightarrow> bool" where
  "isdecimal_char c = (decimal_value c \<noteq> None)"

text \<open>
  The other digits (numeric type Digit): superscripts, subscripts, circled digits and
  the like, as ranges of code points with both ends included.
\<close>

definition digit_ranges :: "(int \<times> int) list" where
  "digit_ranges =
     [(0x00B2, 0x00B3), (0x00B9, 0x00B9), (0x1369, 0x1371), (0x19DA, 0x19DA),
      (0x2070, 0x2070), (0x2074, 0x2079), (0x2080, 0x2089), (0x2460, 0x2468),
      (0x2474, 0x247C), (0x2488, 0x2490), (0x24EA, 0x24EA), (0x24F5, 0x24FD),
      (0x24FF, 0x24FF), (0x2776, 0x277E), (0x2780, 0x2788), (0x278A, 0x2792),
      (0x10A40, 0x10A43), (0x10E60, 0x10E68), (0x11052, 0x1105A), (0x1F100, 0x1F10A)]"

text \<open>\<^verbatim>\<open>str.isdigit\<close> on one code point: numeric type Decimal or Digit.\<close>

definition isdigit_char :: "int \<Rightarrow> bool" where
  "isdigit_char c =
     (isdecimal_char c \<or> list_ex (\<lambda>(lo, hi). lo \<le> c \<and> c \<le> hi) digit_ranges)"

text \<open>\<^verbatim>\<open>str.isdigit\<close>: at least one character, and all of them digits.\<close>

definition isdigit :: "str \<Rightarrow> bool" where
  "isdigit s = (s \<noteq> [] \<and> list_all isdigit_char s)"

definition validate_phone :: "str \<Rightarrow> error + unit" where
  "validate_phone v =
     (if \<not> (isdigit v \<and> length v = 10) then Inl phone_invalid else Inr ())"

text \<open>\<^verbatim>\<open>Phone.__init__\<close>: validate, then store. A Phone object is its \<^verbatim>\<open>value\<close>.\<close>

definition Phone :: "str \<Rightarrow> error + str" where
  "Phone v = (case validate_phone v of Inl e \<Rightarrow> Inl e | Inr _ \<Rightarrow> Inr v)"

section \<open>Dates\<close>

text \<open>
  A naive \<^verbatim>\<open>datetime\<close>. The functions below follow CPython's \<^verbatim>\<open>datetime\<close> module.
\<close>

record datetime =
  year :: int
  month :: int
  day :: int
  hour :: int
  minute :: int
  second :: int
  microsecond :: int

definition is_leap :: "int \<Rightarrow> bool" where
  "is_leap y = (y mod 4 = 0 \<and> (y mod 100 \<noteq> 0 \<or> y mod 400 = 0))"

text \<open>The table \<^verbatim>\<open>_DAYS_IN_MONTH\<close>, read at a month from 1 to 12.\<close>

definition DAYS_IN_MONTH :: "int \<Rightarrow> int" where
  "DAYS_IN_MONTH m =
     (if m = 2 then 28 else if m = 4 \<or> m = 6 \<or> m = 9 \<or> m = 11 then 30 else 31)"

definition days_in_month :: "int \<Rightarrow> int \<Rightarrow> int" where
  "days_in_month y m = (if m = 2 \<and> is_leap y then 29 else DAYS_IN_MONTH m)"

definition MAXYEAR :: int where
  "MAXYEAR = 9999"

text \<open>
  The check every \<^verbatim>\<open>date\<close> and \<^verbatim>\<open>datetime\<close> constructor runs on its fields.
  The messages are those of CPython up to 3.13, the year's without its number; later
  versions word them differently, the exception is a \<^verbatim>\<open>ValueError\<close> in all.
\<close>

definition check_date_fields :: "int \<Rightarrow> int \<Rightarrow> int \<Rightarrow> error + unit" where
  "check_date_fields y m d =
     (if \<not> (1 \<le> y \<and> y \<le> MAXYEAR) then Inl (ValueError ''year is out of range'')
      else if \<not> (1 \<le> m \<and> m \<le> 12) then Inl (ValueError ''month must be in 1..12'')
      else if \<not> (1 \<le> d \<and> d \<le> days_in_month y m)
        then Inl (ValueError ''day is out of range for month'')
      else Inr ())"

text \<open>
  \<^verbatim>\<open>datetime.replace(year=y)\<close> builds a new \<^verbatim>\<open>datetime\<close> from the old fields and the
  new year, so the constructor's check runs again.
\<close>

definition replace_year :: "datetime \<Rightarrow> int \<Rightarrow> error + datetime" where
  "replace_year dt y =
     (case check_date_fields y (month dt) (day dt) of
        Inl e \<Rightarrow> Inl e
      | Inr _ \<Rightarrow> Inr (dt\<lparr>year := y\<rparr>))"

text \<open>Comparison of two naive datetimes: lexicographic on the seven fields.\<close>

definition dt_fields :: "datetime \<Rightarrow> int list" where
  "dt_fields dt = [year dt, month dt, day dt, hour dt, minute dt, second dt, microsecond dt]"

fun tuple_lt :: "int list \<Rightarrow> int list \<Rightarrow> bool" where
  "tuple_lt [] [] = False"
| "tuple_lt [] (y # ys) = True"
| "tuple_lt (x # xs) [] = False"
| "tuple_lt (x # xs) (y # ys) = (x < y \<or> (x = y \<and> tuple_lt xs ys))"

definition dt_lt :: "datetime \<Rightarrow> datetime \<Rightarrow> bool" where
  "dt_lt a b = tuple_lt (dt_fields a) (dt_fields b)"

definition dt_le :: "datetime \<Rightarrow> datetime \<Rightarrow> bool" where
  "dt_le a b = (dt_fields a = dt_fields b \<or> tuple_lt (dt_fields a) (dt_fields b))"

text \<open>
  Proleptic Gregorian ordinals (\<^verbatim>\<open>_ymd2ord\<close>, \<^verbatim>\<open>_ord2ymd\<close>): day 1 is 0001-01-01.
\<close>

definition days_before_year :: "int \<Rightarrow> int" where
  "days_before_year y =
     (let p = y - 1 in p * 365 + p div 4 - p div 100 + p div 400)"

text \<open>The table \<^verbatim>\<open>_DAYS_BEFORE_MONTH\<close>, read at a month from 1 to 12.\<close>

definition DAYS_BEFORE_MONTH :: "int \<Rightarrow> int" where
  "DAYS_BEFORE_MONTH m =
     (if m = 1 then 0 else if m = 2 then 31 else if m = 3 then 59 else if m = 4 then 90
      else if m = 5 then 120 else if m = 6 then 151 else if m = 7 then 181
      else if m = 8 then 212 else if m = 9 then 243 else if m = 10 then 273
      else if m = 11 then 304 else 334)"

definition days_before_month :: "int \<Rightarrow> int \<Rightarrow> int" where
  "days_before_month y m =
     DAYS_BEFORE_MONTH m + (if m > 2 \<and> is_leap y then 1 else 0)"

definition ymd2ord :: "int \<Rightarrow> int \<Rightarrow> int \<Rightarrow> int" where
  "ymd2ord y m d = days_before_year y + days_before_month y m + d"

definition MAXORDINAL :: int where
  "MAXORDINAL = 3652059"

definition ord2ymd :: "int \<Rightarrow> int \<times> int \<times> int" where
  "ord2ymd n0 =
     (let n = n0 - 1;
          n400 = n div 146097; n = n mod 146097;
          n100 = n div 36524; n = n mod 36524;
          n4 = n div 1461; n = n mod 1461;
          n1 = n div 365; n = n mod 365;
          y = n400 * 400 + 1 + n100 * 100 + n4 * 4 + n1
      in if n1 = 4 \<or> n100 = 4 then (y - 1, 12, 31)
         else
           (let leapyear = (n1 = 3 \<and> (n4 \<noteq> 24 \<or> n100 = 3));
                m = (n + 50) div 32;
                preceding = DAYS_BEFORE_MONTH m + (if m > 2 \<and> leapyear then 1 else 0)
            in if preceding > n
               then (let m' = m - 1;
                         preceding' = preceding -
                           (DAYS_IN_MONTH m' + (if m' = 2 \<and> leapyear then 1 else 0))
                     in (y, m', n - preceding' + 1))
               else (y, m, n - preceding + 1)))"

text \<open>
  \<^verbatim>\<open>dt + timedelta(days=k)\<close>: the time of day is kept, the date moves by \<open>k\<close> days, and
  a date outside years 1 to 9999 raises \<^verbatim>\<open>OverflowError\<close>.
\<close>

definition add_days :: "datetime \<Rightarrow> int \<Rightarrow> error + datetime" where
  "add_days dt k =
     (let n = ymd2ord (year dt) (month dt) (day dt) + k
      in if 0 < n \<and> n \<le> MAXORDINAL
         then (case ord2ymd n of (y, m, d) \<Rightarrow> Inr (dt\<lparr>year := y, month := m, day := d\<rparr>))
         else Inl (OverflowError ''date value out of range''))"

section \<open>Parsing a birthday\<close>

text \<open>
  \<^verbatim>\<open>datetime.strptime(value, "%d.%m.%Y")\<close> compiles the format to the regular expression
  \<^verbatim>\<open>(?P<d>3[0-1]|[1-2]\d|0[1-9]|[1-9]| [1-9])\.(?P<m>1[0-2]|0[1-9]|[1-9])\.(?P<Y>\d\d\d\d)\<close>,
  matches it at the start of the text, and rejects text left over after the match.
  A character class is a predicate; an alternative is a sequence of classes; a group is
  a list of alternatives, tried in order.
\<close>

type_synonym cls = "int \<Rightarrow> bool"

definition rng :: "char \<Rightarrow> char \<Rightarrow> cls" where
  "rng lo hi c = (cp lo \<le> c \<and> c \<le> cp hi)"

definition lit :: "char \<Rightarrow> cls" where
  "lit a c = (c = cp a)"

text \<open>\<^verbatim>\<open>\d\<close> in a pattern that is a \<^verbatim>\<open>str\<close>: every Unicode decimal digit.\<close>

definition dig :: cls where
  "dig = isdecimal_char"

fun match_seq :: "cls list \<Rightarrow> str \<Rightarrow> (str \<times> str) option" where
  "match_seq [] s = Some ([], s)"
| "match_seq (p # ps) [] = None"
| "match_seq (p # ps) (c # cs) =
     (if p c then (case match_seq ps cs of None \<Rightarrow> None | Some (t, r) \<Rightarrow> Some (c # t, r))
      else None)"

fun match_alts :: "cls list list \<Rightarrow> str \<Rightarrow> (str \<times> str) list" where
  "match_alts [] s = []"
| "match_alts (a # as) s =
     (case match_seq a s of None \<Rightarrow> match_alts as s | Some tr \<Rightarrow> tr # match_alts as s)"

text \<open>
  All ways to match a sequence of groups, in the order a backtracking matcher finds
  them; the first one is the match \<^verbatim>\<open>re.match\<close> returns.
\<close>

fun match_groups :: "cls list list list \<Rightarrow> str \<Rightarrow> (str list \<times> str) list" where
  "match_groups [] s = [([], s)]"
| "match_groups (g # gs) s =
     concat (map (\<lambda>(t, r). map (\<lambda>(ts, r'). (t # ts, r')) (match_groups gs r))
                 (match_alts g s))"

definition regex_d :: "cls list list" where
  "regex_d =
     [[lit CHR ''3'', rng CHR ''0'' CHR ''1''],
      [rng CHR ''1'' CHR ''2'', dig],
      [lit CHR ''0'', rng CHR ''1'' CHR ''9''],
      [rng CHR ''1'' CHR ''9''],
      [lit CHR '' '', rng CHR ''1'' CHR ''9'']]"

definition regex_m :: "cls list list" where
  "regex_m =
     [[lit CHR ''1'', rng CHR ''0'' CHR ''2''],
      [lit CHR ''0'', rng CHR ''1'' CHR ''9''],
      [rng CHR ''1'' CHR ''9'']]"

definition regex_Y :: "cls list list" where
  "regex_Y = [[dig, dig, dig, dig]]"

definition regex_dot :: "cls list list" where
  "regex_dot = [[lit CHR ''.'']]"

definition format_regex :: "cls list list list" where
  "format_regex = [regex_d, regex_dot, regex_m, regex_dot, regex_Y]"

text \<open>
  \<^verbatim>\<open>int(text)\<close> on the text of a group: leading blanks are stripped (the day may be
  matched with a leading blank), the rest must be decimal digits, read in base ten;
  \<open>None\<close> is the \<^verbatim>\<open>ValueError\<close> of \<^verbatim>\<open>int\<close>.
\<close>

fun digits_value :: "int \<Rightarrow> str \<Rightarrow> int option" where
  "digits_value acc [] = Some acc"
| "digits_value acc (c # cs) =
     (case decimal_value c of
        None \<Rightarrow> None
      | Some v \<Rightarrow> digits_value (10 * acc + v) cs)"

definition py_int :: "str \<Rightarrow> int option" where
  "py_int s =
     (let t = dropWhile (\<lambda>c. c = cp CHR '' '') s
      in if t = [] then None else digits_value 0 t)"

text \<open>
  \<^verbatim>\<open>datetime.strptime(value, "%d.%m.%Y")\<close>; \<open>None\<close> is its \<^verbatim>\<open>ValueError\<close> (no match,
  unconverted data, or fields that are no calendar date). The time of day is midnight.
\<close>

definition strptime :: "str \<Rightarrow> datetime option" where
  "strptime s =
     (case match_groups format_regex s of
        [] \<Rightarrow> None
      | (ts, rest) # _ \<Rightarrow>
          if rest \<noteq> [] then None
          else (case (py_int (ts ! 0), py_int (ts ! 2), py_int (ts ! 4)) of
                  (Some d, Some m, Some y) \<Rightarrow>
                    (case check_date_fields y m d of
                       Inl e \<Rightarrow> None
                     | Inr _ \<Rightarrow> Some \<lparr>year = y, month = m, day = d, hour = 0, minute = 0,
                                       second = 0, microsecond = 0\<rparr>)
                | _ \<Rightarrow> None))"

text \<open>\<^verbatim>\<open>Birthday.validate_birthday\<close>: any \<^verbatim>\<open>ValueError\<close> of the parser is replaced.\<close>

definition validate_birthday :: "str \<Rightarrow> error + datetime" where
  "validate_birthday v = (case strptime v of None \<Rightarrow> Inl date_invalid | Some dt \<Rightarrow> Inr dt)"

text \<open>\<^verbatim>\<open>Birthday.__init__\<close>. A Birthday object is its \<^verbatim>\<open>value\<close>, a datetime.\<close>

definition Birthday :: "str \<Rightarrow> error + datetime" where
  "Birthday v = validate_birthday v"

section \<open>Record\<close>

text \<open>
  A Record holds a Name, a list of Phone objects and an optional Birthday. Every Phone
  object is created by \<^verbatim>\<open>add_phone\<close> and appended once, so no object is in the list
  twice and the list of objects is the list of their values.
\<close>

record Record =
  name :: str
  phones :: "str list"
  birthday :: "datetime option"

text \<open>\<^verbatim>\<open>Record.__init__\<close>.\<close>

definition Record_init :: "str \<Rightarrow> error + Record" where
  "Record_init n =
     (case Name n of
        Inl e \<Rightarrow> Inl e
      | Inr nm \<Rightarrow> Inr \<lparr>name = nm, phones = [], birthday = None\<rparr>)"

text \<open>
  A method that mutates the Record returns its outcome and the Record as it is when the
  method returns or raises.
\<close>

definition add_phone :: "str \<Rightarrow> Record \<Rightarrow> (error + unit) \<times> Record" where
  "add_phone phone_number self =
     (case Phone phone_number of
        Inl e \<Rightarrow> (Inl e, self)
      | Inr phone \<Rightarrow> (Inr (), self\<lparr>phones := phones self @ [phone]\<rparr>))"

text \<open>
  \<^verbatim>\<open>remove_phone\<close>: the loop walks the list; at the first Phone whose value is the
  number, \<^verbatim>\<open>list.remove\<close> takes that object out of the list.
\<close>

fun remove_phone_loop :: "str list \<Rightarrow> str \<Rightarrow> Record \<Rightarrow> bool \<times> Record" where
  "remove_phone_loop [] phone_number self = (False, self)"
| "remove_phone_loop (phone # rest) phone_number self =
     (if phone = phone_number
      then (True, self\<lparr>phones := remove1 phone (phones self)\<rparr>)
      else remove_phone_loop rest phone_number self)"

definition remove_phone :: "str \<Rightarrow> Record \<Rightarrow> bool \<times> Record" where
  "remove_phone phone_number self = remove_phone_loop (phones self) phone_number self"

text \<open>
  \<^verbatim>\<open>edit_phone\<close>: the loop walks the list; at the first Phone whose value is the old
  number, the value of that object is overwritten with the new number.
\<close>

fun edit_phone_loop :: "str list \<Rightarrow> str \<Rightarrow> str \<Rightarrow> bool \<times> str list" where
  "edit_phone_loop [] old_number new_number = (False, [])"
| "edit_phone_loop (phone # rest) old_number new_number =
     (if phone = old_number then (True, new_number # rest)
      else (case edit_phone_loop rest old_number new_number of
              (found, rest') \<Rightarrow> (found, phone # rest')))"

definition edit_phone :: "str \<Rightarrow> str \<Rightarrow> Record \<Rightarrow> bool \<times> Record" where
  "edit_phone old_number new_number self =
     (case edit_phone_loop (phones self) old_number new_number of
        (found, ps) \<Rightarrow> (found, self\<lparr>phones := ps\<rparr>))"

fun find_phone_loop :: "str list \<Rightarrow> str \<Rightarrow> str option" where
  "find_phone_loop [] phone_number = None"
| "find_phone_loop (phone # rest) phone_number =
     (if phone = phone_number then Some phone else find_phone_loop rest phone_number)"

definition find_phone :: "str \<Rightarrow> Record \<Rightarrow> str option" where
  "find_phone phone_number self = find_phone_loop (phones self) phone_number"

definition add_birthday :: "str \<Rightarrow> Record \<Rightarrow> (error + unit) \<times> Record" where
  "add_birthday b self =
     (case Birthday b of
        Inl e \<Rightarrow> (Inl e, self)
      | Inr bd \<Rightarrow> (Inr (), self\<lparr>birthday := Some bd\<rparr>))"

text \<open>
  The operations of a Record as data, to speak about sequences of them. An operation
  returns \<^verbatim>\<open>None\<close> or a boolean, or raises.
\<close>

datatype operation =
    AddPhone str
  | RemovePhone str
  | EditPhone str str
  | AddBirthday str

datatype retval = RNone | RBool bool

fun apply_op :: "operation \<Rightarrow> Record \<Rightarrow> (error + retval) \<times> Record" where
  "apply_op (AddPhone s) r = (case add_phone s r of (res, r') \<Rightarrow> (map_sum id (\<lambda>_. RNone) res, r'))"
| "apply_op (RemovePhone s) r = (case remove_phone s r of (b, r') \<Rightarrow> (Inr (RBool b), r'))"
| "apply_op (EditPhone old new) r = (case edit_phone old new r of (b, r') \<Rightarrow> (Inr (RBool b), r'))"
| "apply_op (AddBirthday s) r = (case add_birthday s r of (res, r') \<Rightarrow> (map_sum id (\<lambda>_. RNone) res, r'))"

text \<open>
  A caller that runs operations one after the other on the same Record, going on after
  an exception as the command loop of \<^verbatim>\<open>02.py\<close> does.
\<close>

fun run_ops :: "operation list \<Rightarrow> Record \<Rightarrow> Record" where
  "run_ops [] r = r"
| "run_ops (op # ops) r = run_ops ops (snd (apply_op op r))"

section \<open>AddressBook\<close>

text \<open>
  The \<^verbatim>\<open>data\<close> dictionary of the \<^verbatim>\<open>UserDict\<close>, in insertion order: assigning to a
  key that is present keeps its place, a new key goes to the end.
\<close>

type_synonym AddressBook = "(str \<times> Record) list"

definition add_record :: "Record \<Rightarrow> AddressBook \<Rightarrow> AddressBook" where
  "add_record record data = AList.update (name record) record data"

definition find :: "str \<Rightarrow> AddressBook \<Rightarrow> Record option" where
  "find n data = map_of data n"

definition delete :: "str \<Rightarrow> AddressBook \<Rightarrow> bool \<times> AddressBook" where
  "delete n data =
     (if n \<in> set (map fst data) then (True, AList.delete n data) else (False, data))"

text \<open>
  \<^verbatim>\<open>get_upcoming_birthdays\<close>; the result of \<^verbatim>\<open>datetime.now()\<close> is the argument
  \<open>today\<close>. The loop over \<^verbatim>\<open>self.data.values()\<close> stops at the first exception.
\<close>

fun upcoming_loop :: "Record list \<Rightarrow> datetime \<Rightarrow> datetime \<Rightarrow> str list \<Rightarrow> error + str list" where
  "upcoming_loop [] today next_week upcoming_birthdays = Inr upcoming_birthdays"
| "upcoming_loop (record # rest) today next_week upcoming_birthdays =
     (case birthday record of
        None \<Rightarrow> upcoming_loop rest today next_week upcoming_birthdays
      | Some bd \<Rightarrow>
          (case replace_year bd (year today) of
             Inl e \<Rightarrow> Inl e
           | Inr birthday_this_year \<Rightarrow>
               if dt_le today birthday_this_year \<and> dt_lt birthday_this_year next_week
               then upcoming_loop rest today next_week (upcoming_birthdays @ [name record])
               else upcoming_loop rest today next_week upcoming_birthdays))"

definition get_upcoming_birthdays :: "datetime \<Rightarrow> AddressBook \<Rightarrow> error + str list" where
  "get_upcoming_birthdays today data =
     (case add_days today 7 of
        Inl e \<Rightarrow> Inl e
      | Inr next_week \<Rightarrow> upcoming_loop (map snd data) today next_week [])"

section \<open>Notions used to state the properties\<close>

text \<open>
  The specification's wording of a valid phone number, to compare with
  \<^const>\<open>validate_phone\<close>: exactly 10 ASCII decimal digits.
\<close>

definition spec_ten_ascii_digits :: "str \<Rightarrow> bool" where
  "spec_ten_ascii_digits s = (length s = 10 \<and> set s \<subseteq> set (py ''0123456789''))"

text \<open>Every phone of the Record passes \<^verbatim>\<open>Phone.validate_phone\<close>.\<close>

definition phones_valid :: "Record \<Rightarrow> bool" where
  "phones_valid r = list_all (\<lambda>p. validate_phone p = Inr ()) (phones r)"

text \<open>The test the loop of \<^verbatim>\<open>get_upcoming_birthdays\<close> applies to one Record.\<close>

definition in_window :: "datetime \<Rightarrow> datetime \<Rightarrow> Record \<Rightarrow> bool" where
  "in_window today next_week record =
     (case birthday record of
        None \<Rightarrow> False
      | Some bd \<Rightarrow>
          (case replace_year bd (year today) of
             Inl e \<Rightarrow> False
           | Inr birthday_this_year \<Rightarrow>
               dt_le today birthday_this_year \<and> dt_lt birthday_this_year next_week))"

text \<open>
  A book built by \<^verbatim>\<open>add_record\<close> and \<^verbatim>\<open>delete\<close>: the keys are distinct and each
  key is the name of its Record.
\<close>

definition book_ok :: "AddressBook \<Rightarrow> bool" where
  "book_ok data = (distinct (map fst data) \<and> list_all (\<lambda>(k, r). k = name r) data)"

text \<open>A time of day that \<^verbatim>\<open>datetime.now()\<close> can return, and one after midnight.\<close>

definition time_ok :: "datetime \<Rightarrow> bool" where
  "time_ok dt =
     (0 \<le> hour dt \<and> hour dt < 24 \<and> 0 \<le> minute dt \<and> minute dt < 60 \<and>
      0 \<le> second dt \<and> second dt < 60 \<and> 0 \<le> microsecond dt \<and> microsecond dt < 1000000)"

definition after_midnight :: "datetime \<Rightarrow> bool" where
  "after_midnight dt =
     (time_ok dt \<and> [hour dt, minute dt, second dt, microsecond dt] \<noteq> [0, 0, 0, 0])"

section \<open>Phones of a Record\<close>

text \<open>
  What \<^verbatim>\<open>edit_phone\<close> does to the list: the first phone equal to the old number is
  replaced, the phones before and after it stay, and the result tells whether there was
  one.
\<close>

lemma edit_phone_loop_first_match:
  "edit_phone_loop ps old new =
     (if old \<in> set ps
      then (True, takeWhile (\<lambda>p. p \<noteq> old) ps @ new # tl (dropWhile (\<lambda>p. p \<noteq> old) ps))
      else (False, ps))"
  by (induction ps) auto

lemma edit_phone_example:
  "edit_phone (py ''1234567890'') (py ''1112223333'')
     \<lparr>name = py ''John'', phones = [py ''1234567890'', py ''5555555555'', py ''1234567890''],
        birthday = None\<rparr>
   = (True, \<lparr>name = py ''John'', phones = [py ''1112223333'', py ''5555555555'', py ''1234567890''],
               birthday = None\<rparr>)
   \<and> find_phone (py ''1234567890'')
         \<lparr>name = py ''John'', phones = [py ''1112223333'', py ''5555555555''], birthday = None\<rparr> = None
   \<and> find_phone (py ''1112223333'')
         \<lparr>name = py ''John'', phones = [py ''1112223333'', py ''5555555555''], birthday = None\<rparr>
       = Some (py ''1112223333'')"
  by code_simp

text \<open>
  Every operation but \<^verbatim>\<open>edit_phone\<close> keeps the phones of a Record valid.
\<close>

lemma remove_phone_loop_result:
  "remove_phone_loop xs n self = (b, r') \<Longrightarrow>
   name r' = name self \<and> birthday r' = birthday self \<and> set (phones r') \<subseteq> set (phones self)"
  using set_remove1_subset [of n "phones self"]
  by (induction xs) (auto split: if_splits)

lemma valid_ops_keep_phones_valid:
  assumes "phones_valid r" and "\<And>old new. op \<noteq> EditPhone old new"
  shows "phones_valid (snd (apply_op op r))"
proof (cases op)
  case (AddPhone s)
  with assms(1) show ?thesis
    by (auto simp: phones_valid_def add_phone_def Phone_def split: sum.splits)
next
  case (RemovePhone s)
  obtain b r' where e: "remove_phone_loop (phones r) s r = (b, r')"
    by (cases "remove_phone_loop (phones r) s r")
  from remove_phone_loop_result [OF e] assms(1) have "phones_valid r'"
    unfolding phones_valid_def list_all_iff by blast
  with RemovePhone e show ?thesis by (simp add: remove_phone_def)
next
  case (EditPhone old new)
  with assms(2) show ?thesis by blast
next
  case (AddBirthday s)
  with assms(1) show ?thesis
    by (auto simp: phones_valid_def add_birthday_def split: sum.splits)
qed

text \<open>
  C1. Claim: after any sequence of Record operations every phone in the list is exactly
  10 digits. The code breaks it: \<^verbatim>\<open>edit_phone\<close> assigns the new number to the Phone
  object without calling \<^verbatim>\<open>validate_phone\<close>. Creating John, adding 1234567890 and
  editing it to abc leaves abc in the list, a value \<^verbatim>\<open>validate_phone\<close> rejects.
\<close>

theorem edit_phone_leaves_invalid_phone:
  "Record_init (py ''John'') = Inr \<lparr>name = py ''John'', phones = [], birthday = None\<rparr>
   \<and> run_ops [AddPhone (py ''1234567890''), EditPhone (py ''1234567890'') (py ''abc'')]
        \<lparr>name = py ''John'', phones = [], birthday = None\<rparr>
      = \<lparr>name = py ''John'', phones = [py ''abc''], birthday = None\<rparr>
   \<and> validate_phone (py ''abc'') = Inl phone_invalid"
  by code_simp

text \<open>
  C2. Claim: \<^verbatim>\<open>edit_phone(old, new)\<close> first validates the new number and fails on an
  invalid one. The code does not: with the invalid new number abc it returns true and
  stores abc.
\<close>

theorem edit_phone_accepts_invalid_number:
  "validate_phone (py ''abc'') = Inl phone_invalid
   \<and> edit_phone (py ''1234567890'') (py ''abc'')
        \<lparr>name = py ''John'', phones = [py ''1234567890''], birthday = None\<rparr>
      = (True, \<lparr>name = py ''John'', phones = [py ''abc''], birthday = None\<rparr>)"
  by code_simp

text \<open>
  What \<^const>\<open>isdigit_char\<close> accepts: a code point in a block of decimal digits or in
  a range of other digits. The ASCII decimal digits are among them, and so are the
  superscript two, the Arabic-Indic digits and the fullwidth digits; letters and the
  fraction one half are not.
\<close>

lemma decimal_value_eq_Some:
  "decimal_value c = Some v \<Longrightarrow> \<exists>z\<in>set decimal_zeros. z \<le> c \<and> c \<le> z + 9 \<and> v = c - z"
proof -
  assume a: "decimal_value c = Some v"
  then obtain z zs where f: "filter (\<lambda>z. z \<le> c \<and> c \<le> z + 9) decimal_zeros = z # zs"
    and v: "v = c - z"
    by (auto simp: decimal_value_def split: list.splits)
  have "z \<in> set (filter (\<lambda>z. z \<le> c \<and> c \<le> z + 9) decimal_zeros)"
    unfolding f by simp
  with v show ?thesis by auto
qed

lemma isdigit_char_iff:
  "isdigit_char c \<longleftrightarrow>
     (\<exists>z\<in>set decimal_zeros. z \<le> c \<and> c \<le> z + 9)
     \<or> (\<exists>(lo, hi)\<in>set digit_ranges. lo \<le> c \<and> c \<le> hi)"
proof -
  have "isdecimal_char c \<longleftrightarrow> filter (\<lambda>z. z \<le> c \<and> c \<le> z + 9) decimal_zeros \<noteq> []"
    by (simp add: isdecimal_char_def decimal_value_def split: list.splits)
  also have "\<dots> \<longleftrightarrow> (\<exists>z\<in>set decimal_zeros. z \<le> c \<and> c \<le> z + 9)"
    by (simp add: filter_empty_conv)
  finally show ?thesis
    by (simp add: isdigit_char_def list_ex_iff)
qed

lemma isdigit_char_ascii: "c \<in> set (py ''0123456789'') \<Longrightarrow> isdigit_char c"
proof -
  assume "c \<in> set (py ''0123456789'')"
  then have "48 \<le> c \<and> c \<le> 48 + 9"
    by (auto simp: py_def cp_def)
  moreover have "48 \<in> set decimal_zeros"
    by (simp add: decimal_zeros_def)
  ultimately show ?thesis
    unfolding isdigit_char_iff by blast
qed

lemma isdigit_char_examples:
  "isdigit_char 0xB2 \<and> list_all isdigit_char [0x660, 0x661, 0x669, 0xFF10, 0xFF19]
   \<and> \<not> isdigit_char (cp CHR ''a'') \<and> \<not> isdigit_char 0xBD \<and> \<not> isdigit_char (cp CHR ''-'')"
  by code_simp

text \<open>
  C4, as stated: \<^verbatim>\<open>add_phone(s)\<close> succeeds if and only if \<open>s\<close> is exactly 10 ASCII
  decimal digits. It fails on ten times the superscript two (U+00B2): \<^verbatim>\<open>str.isdigit\<close>
  accepts that character, so the phone is added.
\<close>

theorem add_phone_accepts_superscript_digits:
  "fst (add_phone
          [0xB2, 0xB2, 0xB2, 0xB2, 0xB2,
           0xB2, 0xB2, 0xB2, 0xB2, 0xB2]
          \<lparr>name = py ''John'', phones = [], birthday = None\<rparr>) = Inr ()
   \<and> \<not> spec_ten_ascii_digits
          [0xB2, 0xB2, 0xB2, 0xB2, 0xB2,
           0xB2, 0xB2, 0xB2, 0xB2, 0xB2]"
  by code_simp

text \<open>
  C4, amended: \<^verbatim>\<open>add_phone(s)\<close> succeeds, appending \<open>s\<close> at the end of the phone
  list, if and only if \<open>s\<close> has exactly 10 characters and each of them is a digit for
  \<^verbatim>\<open>str.isdigit\<close> (an ASCII decimal digit or another Unicode digit); for every other
  string it raises the phone validation error.
\<close>

theorem add_phone_succeeds_iff_ten_isdigit:
  "(fst (add_phone s r) = Inr () \<longleftrightarrow> length s = 10 \<and> list_all isdigit_char s)
   \<and> (fst (add_phone s r) = Inr () \<longrightarrow> snd (add_phone s r) = r\<lparr>phones := phones r @ [s]\<rparr>)
   \<and> (fst (add_phone s r) \<noteq> Inr () \<longrightarrow> fst (add_phone s r) = Inl phone_invalid)"
proof -
  have "length s = 10 \<Longrightarrow> s \<noteq> []" by auto
  then show ?thesis
    by (auto simp: add_phone_def Phone_def validate_phone_def isdigit_def)
qed

theorem add_phone_succeeds_iff_ten_isdigit_witness:
  "fst (add_phone [0x661, 0x662, 0x663, 0x664, 0x665, 0x666, 0x667, 0x668, 0x669, 0x660]
          \<lparr>name = py ''John'', phones = [py ''1234567890''], birthday = None\<rparr>) = Inr ()
   \<and> snd (add_phone [0x661, 0x662, 0x663, 0x664, 0x665, 0x666, 0x667, 0x668, 0x669, 0x660]
          \<lparr>name = py ''John'', phones = [py ''1234567890''], birthday = None\<rparr>)
      = \<lparr>name = py ''John'',
           phones = [py ''1234567890'',
                     [0x661, 0x662, 0x663, 0x664, 0x665, 0x666, 0x667, 0x668, 0x669, 0x660]],
           birthday = None\<rparr>
   \<and> fst (add_phone (py ''12345'')
          \<lparr>name = py ''John'', phones = [py ''1234567890''], birthday = None\<rparr>) \<noteq> Inr ()
   \<and> fst (add_phone (py ''12345'')
          \<lparr>name = py ''John'', phones = [py ''1234567890''], birthday = None\<rparr>)
      = Inl phone_invalid"
proof -
  let ?r = "\<lparr>name = py ''John'', phones = [py ''1234567890''], birthday = None\<rparr>"
  let ?s = "[0x661, 0x662, 0x663, 0x664, 0x665, 0x666, 0x667, 0x668, 0x669, 0x660 :: int]"
  note t1 = add_phone_succeeds_iff_ten_isdigit [of ?s ?r]
  note t2 = add_phone_succeeds_iff_ten_isdigit [of "py ''12345''" ?r]
  have h1: "length ?s = 10 \<and> list_all isdigit_char ?s" by code_simp
  from t1 h1 have ok: "fst (add_phone ?s ?r) = Inr ()" by blast
  with t1 have st: "snd (add_phone ?s ?r) = ?r\<lparr>phones := phones ?r @ [?s]\<rparr>" by blast
  have h2: "\<not> (length (py ''12345'') = 10 \<and> list_all isdigit_char (py ''12345''))"
    by (simp add: py_def)
  from t2 h2 have no: "fst (add_phone (py ''12345'') ?r) \<noteq> Inr ()" by blast
  with t2 have er: "fst (add_phone (py ''12345'') ?r) = Inl phone_invalid" by blast
  from ok st no er show ?thesis by simp
qed

section \<open>Exceptions and the state of a Record\<close>

text \<open>
  C6. If a mutating operation of a Record (\<^verbatim>\<open>add_phone\<close>, \<^verbatim>\<open>edit_phone\<close>,
  \<^verbatim>\<open>add_birthday\<close>, and \<^verbatim>\<open>remove_phone\<close> as well) raises, the Record is afterwards
  what it was before: name, phone list and birthday are unchanged.
\<close>

theorem raising_operation_leaves_record_unchanged:
  "fst (apply_op op r) = Inl e \<Longrightarrow> snd (apply_op op r) = r"
  by (cases op) (auto simp: add_phone_def add_birthday_def split: sum.splits prod.splits)

theorem raising_operation_leaves_record_unchanged_witness:
  "fst (apply_op (AddPhone (py ''12345''))
          \<lparr>name = py ''John'', phones = [py ''1234567890''], birthday = None\<rparr>) = Inl phone_invalid
   \<and> snd (apply_op (AddPhone (py ''12345''))
          \<lparr>name = py ''John'', phones = [py ''1234567890''], birthday = None\<rparr>)
      = \<lparr>name = py ''John'', phones = [py ''1234567890''], birthday = None\<rparr>"
proof -
  have h: "fst (apply_op (AddPhone (py ''12345''))
                  \<lparr>name = py ''John'', phones = [py ''1234567890''], birthday = None\<rparr>)
           = Inl phone_invalid"
    by code_simp
  from raising_operation_leaves_record_unchanged [OF h] h show ?thesis by simp
qed

section \<open>Finding a Record in the book\<close>

text \<open>
  C8. After \<^verbatim>\<open>add_record(r)\<close>, \<^verbatim>\<open>find\<close> with the name text of \<open>r\<close> returns \<open>r\<close>,
  and \<^verbatim>\<open>find(m)\<close> returns nothing for every \<open>m\<close> that is none of the stored name
  texts (the keys of the book), also when \<open>m\<close> differs from a stored name only in
  letter case.
\<close>

theorem find_after_add_record:
  "find (name r) (add_record r b) = Some r
   \<and> (m \<notin> set (map fst (add_record r b)) \<longrightarrow> find m (add_record r b) = None)"
  by (simp add: find_def add_record_def update_conv' map_of_eq_None_iff dom_update)

theorem find_after_add_record_witness:
  "(py ''john'') \<notin> set (map fst
      (add_record \<lparr>name = py ''John'', phones = [py ''1234567890''], birthday = None\<rparr>
         [(py ''Jane'', \<lparr>name = py ''Jane'', phones = [], birthday = None\<rparr>)]))
   \<and> find (py ''John'')
        (add_record \<lparr>name = py ''John'', phones = [py ''1234567890''], birthday = None\<rparr>
           [(py ''Jane'', \<lparr>name = py ''Jane'', phones = [], birthday = None\<rparr>)])
      = Some \<lparr>name = py ''John'', phones = [py ''1234567890''], birthday = None\<rparr>
   \<and> find (py ''john'')
        (add_record \<lparr>name = py ''John'', phones = [py ''1234567890''], birthday = None\<rparr>
           [(py ''Jane'', \<lparr>name = py ''Jane'', phones = [], birthday = None\<rparr>)])
      = None"
proof -
  have h: "(py ''john'') \<notin> set (map fst
      (add_record \<lparr>name = py ''John'', phones = [py ''1234567890''], birthday = None\<rparr>
         [(py ''Jane'', \<lparr>name = py ''Jane'', phones = [], birthday = None\<rparr>)]))"
    by (simp add: add_record_def py_def cp_def)
  from find_after_add_record
         [of "\<lparr>name = py ''John'', phones = [py ''1234567890''], birthday = None\<rparr>"
             "[(py ''Jane'', \<lparr>name = py ''Jane'', phones = [], birthday = None\<rparr>)]" "(py ''john'')"] h
  show ?thesis by simp
qed

section \<open>Birthdays\<close>

text \<open>
  C7. Birthday construction parses day.month.year text: 15.11.1990 gives day 15, month
  11, year 1990; 31.02.1990 (no calendar date) and 1990-11-15 (wrong separator) fail
  with the validation error of \<^verbatim>\<open>validate_birthday\<close>.
\<close>

theorem birthday_parsing_examples:
  "Birthday (py ''15.11.1990'') =
     Inr \<lparr>year = 1990, month = 11, day = 15, hour = 0, minute = 0, second = 0,
          microsecond = 0\<rparr>
   \<and> Birthday (py ''31.02.1990'') = Inl date_invalid
   \<and> Birthday (py ''1990-11-15'') = Inl date_invalid"
  by code_simp

text \<open>
  The text the parser accepts: what a match of the groups of the regular expression
  looks like, and the values of its digits.
\<close>

lemma match_seq_Some:
  "match_seq ps s = Some (t, r) \<Longrightarrow> s = t @ r \<and> list_all2 (\<lambda>p c. p c) ps t"
  by (induction ps s arbitrary: t r rule: match_seq.induct)
     (auto split: if_splits option.splits)

lemma match_alts_mem:
  "(t, r) \<in> set (match_alts g s) \<Longrightarrow> \<exists>a\<in>set g. match_seq a s = Some (t, r)"
  by (induction g) (auto split: option.splits)

lemma match_groups_mem:
  "(ts, r) \<in> set (match_groups gs s) \<Longrightarrow>
   s = concat ts @ r \<and> list_all2 (\<lambda>g t. \<exists>a\<in>set g. list_all2 (\<lambda>p c. p c) a t) gs ts"
proof (induction gs arbitrary: s ts r)
  case Nil
  then show ?case by simp
next
  case (Cons g gs)
  from Cons.prems obtain t r1 ts' where
    t: "(t, r1) \<in> set (match_alts g s)" and
    ts': "(ts', r) \<in> set (match_groups gs r1)" and
    eq: "ts = t # ts'"
    by auto
  from match_alts_mem [OF t] obtain a where a: "a \<in> set g" "match_seq a s = Some (t, r1)"
    by blast
  from match_seq_Some [OF a(2)] have s: "s = t @ r1" and at: "list_all2 (\<lambda>p c. p c) a t"
    by simp_all
  from Cons.IH [OF ts'] s eq a(1) at show ?case by auto
qed

lemma dot_blank_no_digit: "\<not> dig 46 \<and> \<not> dig 32"
  unfolding dig_def by code_simp

lemma day_text:
  assumes "a \<in> set regex_d" and "list_all2 (\<lambda>p c. p c) a d"
  shows "cp CHR ''.'' \<notin> set d \<and> (length d = 1 \<or> length d = 2)"
  using assms dot_blank_no_digit
  by (auto simp: regex_d_def list_all2_Cons1 lit_def rng_def cp_def)

lemma month_text:
  assumes "a \<in> set regex_m" and "list_all2 (\<lambda>p c. p c) a m"
  shows "cp CHR ''.'' \<notin> set m \<and> (length m = 1 \<or> length m = 2)"
  using assms by (auto simp: regex_m_def list_all2_Cons1 lit_def rng_def cp_def)

lemma year_text:
  assumes "a \<in> set regex_Y" and "list_all2 (\<lambda>p c. p c) a y"
  shows "length y = 4 \<and> list_all dig y"
  using assms by (auto simp: regex_Y_def list_all2_Cons1)

lemma dot_text:
  assumes "a \<in> set regex_dot" and "list_all2 (\<lambda>p c. p c) a t"
  shows "t = py ''.''"
  using assms by (auto simp: regex_dot_def list_all2_Cons1 lit_def py_def)

text \<open>
  Every accepted text is a day text, a dot, a month text, a dot and exactly four decimal
  digits (of any script).
\<close>

lemma strptime_shape:
  assumes "strptime s = Some dt"
  shows "\<exists>d m y. s = d @ py ''.'' @ m @ py ''.'' @ y
           \<and> cp CHR ''.'' \<notin> set d \<and> cp CHR ''.'' \<notin> set m
           \<and> length y = 4 \<and> list_all dig y"
proof -
  from assms obtain ts where "(ts, []) \<in> set (match_groups format_regex s)"
    by (auto simp: strptime_def split: list.splits prod.splits if_splits)
  from match_groups_mem [OF this]
  have s: "s = concat ts"
    and all: "list_all2 (\<lambda>g t. \<exists>a\<in>set g. list_all2 (\<lambda>p c. p c) a t) format_regex ts"
    by simp_all
  from all obtain d p1 m p2 y where ts: "ts = [d, p1, m, p2, y]"
    and d: "\<exists>a\<in>set regex_d. list_all2 (\<lambda>p c. p c) a d"
    and p1: "\<exists>a\<in>set regex_dot. list_all2 (\<lambda>p c. p c) a p1"
    and m: "\<exists>a\<in>set regex_m. list_all2 (\<lambda>p c. p c) a m"
    and p2: "\<exists>a\<in>set regex_dot. list_all2 (\<lambda>p c. p c) a p2"
    and y: "\<exists>a\<in>set regex_Y. list_all2 (\<lambda>p c. p c) a y"
    unfolding format_regex_def list_all2_Cons1 by blast
  from p1 p2 have "p1 = py ''.''" "p2 = py ''.''" using dot_text by blast+
  with s ts have "s = d @ py ''.'' @ m @ py ''.'' @ y" by simp
  moreover from d have "cp CHR ''.'' \<notin> set d" using day_text by blast
  moreover from m have "cp CHR ''.'' \<notin> set m" using month_text by blast
  moreover from y have "length y = 4 \<and> list_all dig y" using year_text by blast
  ultimately show ?thesis by blast
qed

lemma day_one_digit:
  "rng CHR ''1'' CHR ''9'' a \<Longrightarrow>
   match_alts regex_d (a # cp CHR ''.'' # r) = [([a], cp CHR ''.'' # r)]"
  using dot_blank_no_digit by (auto simp: regex_d_def lit_def rng_def cp_def)

lemma month_one_digit:
  "rng CHR ''1'' CHR ''9'' b \<Longrightarrow>
   match_alts regex_m (b # cp CHR ''.'' # r) = [([b], cp CHR ''.'' # r)]"
  by (auto simp: regex_m_def lit_def rng_def cp_def)

lemma dot_match: "match_alts regex_dot (cp CHR ''.'' # r) = [([cp CHR ''.''], r)]"
  by (simp add: regex_dot_def lit_def)

lemma year_four_digits:
  "dig y1 \<Longrightarrow> dig y2 \<Longrightarrow> dig y3 \<Longrightarrow> dig y4 \<Longrightarrow>
   match_alts regex_Y [y1, y2, y3, y4] = [([y1, y2, y3, y4], [])]"
  by (simp add: regex_Y_def)

lemma digit_value:
  assumes "dig c"
  shows "\<exists>v. decimal_value c = Some v \<and> 0 \<le> v \<and> v \<le> 9"
proof -
  from assms obtain v where v: "decimal_value c = Some v"
    by (auto simp: dig_def isdecimal_char_def)
  from decimal_value_eq_Some [OF v] have "0 \<le> v \<and> v \<le> 9" by auto
  with v show ?thesis by blast
qed

lemma digit_not_blank: "dig c \<Longrightarrow> c \<noteq> cp CHR '' ''"
  using dot_blank_no_digit by (auto simp: cp_def)

lemma one_to_nine_value:
  assumes "rng CHR ''1'' CHR ''9'' c"
  shows "py_int [c] = Some (c - cp CHR ''0'') \<and> 1 \<le> c - cp CHR ''0'' \<and> c - cp CHR ''0'' \<le> 9"
proof -
  from assms have b: "49 \<le> c \<and> c \<le> 57"
    by (simp add: rng_def cp_def)
  then have "filter (\<lambda>z. z \<le> c \<and> c \<le> z + 9) decimal_zeros
             = 48 # filter (\<lambda>z. z \<le> c \<and> c \<le> z + 9) (tl decimal_zeros)"
    by (simp add: decimal_zeros_def)
  then have "decimal_value c = Some (c - 48)"
    by (simp add: decimal_value_def)
  with b show ?thesis
    by (simp add: py_int_def cp_def)
qed

lemma year_value:
  assumes "dig y1" "dig y2" "dig y3" "dig y4" "py_int [y1, y2, y3, y4] = Some y"
  shows "0 \<le> y \<and> y \<le> 9999"
proof -
  from digit_value [OF assms(1)] obtain v1 where
    v1: "decimal_value y1 = Some v1" "0 \<le> v1 \<and> v1 \<le> 9" by blast
  from digit_value [OF assms(2)] obtain v2 where
    v2: "decimal_value y2 = Some v2" "0 \<le> v2 \<and> v2 \<le> 9" by blast
  from digit_value [OF assms(3)] obtain v3 where
    v3: "decimal_value y3 = Some v3" "0 \<le> v3 \<and> v3 \<le> 9" by blast
  from digit_value [OF assms(4)] obtain v4 where
    v4: "decimal_value y4 = Some v4" "0 \<le> v4 \<and> v4 \<le> 9" by blast
  from digit_not_blank [OF assms(1)] v1(1) v2(1) v3(1) v4(1)
  have "py_int [y1, y2, y3, y4] = Some (10 * (10 * (10 * v1 + v2) + v3) + v4)"
    by (simp add: py_int_def)
  with assms(5) have "y = 10 * (10 * (10 * v1 + v2) + v3) + v4" by simp
  with v1(2) v2(2) v3(2) v4(2) show ?thesis by simp
qed

lemma one_digit_day_and_month:
  assumes "rng CHR ''1'' CHR ''9'' a" "rng CHR ''1'' CHR ''9'' b"
    and "dig y1" "dig y2" "dig y3" "dig y4"
    and "py_int [y1, y2, y3, y4] = Some y" "1 \<le> y"
  shows "strptime [a, cp CHR ''.'', b, cp CHR ''.'', y1, y2, y3, y4] =
     Some \<lparr>year = y, month = b - cp CHR ''0'', day = a - cp CHR ''0'',
           hour = 0, minute = 0, second = 0, microsecond = 0\<rparr>"
proof -
  have m: "match_groups format_regex [a, cp CHR ''.'', b, cp CHR ''.'', y1, y2, y3, y4]
           = [([[a], [cp CHR ''.''], [b], [cp CHR ''.''], [y1, y2, y3, y4]], [])]"
    using assms(1-6)
    by (simp add: format_regex_def day_one_digit month_one_digit dot_match year_four_digits)
  note da = one_to_nine_value [OF assms(1)]
  note mo = one_to_nine_value [OF assms(2)]
  from da mo year_value [OF assms(3-7)] assms(8)
  have "check_date_fields y (b - cp CHR ''0'') (a - cp CHR ''0'') = Inr ()"
    by (simp add: check_date_fields_def MAXYEAR_def days_in_month_def DAYS_IN_MONTH_def)
  with m da mo assms(7) show ?thesis
    by (simp add: strptime_def)
qed

text \<open>
  C10, as stated: a year with fewer than four digits is accepted, for example 5.1.90.
  It is not: \<^verbatim>\<open>%Y\<close> is four digits, and the text is rejected.
\<close>

theorem birthday_two_digit_year_rejected:
  "Birthday (py ''5.1.90'') = Inl date_invalid"
  by code_simp

text \<open>
  C10, amended: Birthday construction accepts inputs whose day and month are not
  zero-padded. A one-digit day from 1 to 9, a dot, a one-digit month from 1 to 9, a dot
  and a year of four decimal digits that is not zero are accepted and give that date at
  midnight (for example 5.1.1990).
\<close>

theorem birthday_day_and_month_need_no_padding:
  "rng CHR ''1'' CHR ''9'' a \<and> rng CHR ''1'' CHR ''9'' b
     \<and> dig y1 \<and> dig y2 \<and> dig y3 \<and> dig y4
     \<and> py_int [y1, y2, y3, y4] = Some y \<and> 1 \<le> y \<longrightarrow>
   Birthday [a, cp CHR ''.'', b, cp CHR ''.'', y1, y2, y3, y4] =
     Inr \<lparr>year = y, month = b - cp CHR ''0'', day = a - cp CHR ''0'',
          hour = 0, minute = 0, second = 0, microsecond = 0\<rparr>"
proof
  assume h: "rng CHR ''1'' CHR ''9'' a \<and> rng CHR ''1'' CHR ''9'' b
     \<and> dig y1 \<and> dig y2 \<and> dig y3 \<and> dig y4
     \<and> py_int [y1, y2, y3, y4] = Some y \<and> 1 \<le> y"
  then have "strptime [a, cp CHR ''.'', b, cp CHR ''.'', y1, y2, y3, y4] =
     Some \<lparr>year = y, month = b - cp CHR ''0'', day = a - cp CHR ''0'',
           hour = 0, minute = 0, second = 0, microsecond = 0\<rparr>"
    by (intro one_digit_day_and_month) simp_all
  then show "Birthday [a, cp CHR ''.'', b, cp CHR ''.'', y1, y2, y3, y4] =
     Inr \<lparr>year = y, month = b - cp CHR ''0'', day = a - cp CHR ''0'',
          hour = 0, minute = 0, second = 0, microsecond = 0\<rparr>"
    by (simp add: Birthday_def validate_birthday_def)
qed

theorem birthday_day_and_month_need_no_padding_witness:
  "rng CHR ''1'' CHR ''9'' (cp CHR ''5'') \<and> rng CHR ''1'' CHR ''9'' (cp CHR ''1'')
   \<and> list_all dig (py ''1990'') \<and> py_int (py ''1990'') = Some 1990
   \<and> Birthday (py ''5.1.1990'') =
       Inr \<lparr>year = 1990, month = 1, day = 5, hour = 0, minute = 0, second = 0,
            microsecond = 0\<rparr>"
proof -
  have h: "rng CHR ''1'' CHR ''9'' (cp CHR ''5'') \<and> rng CHR ''1'' CHR ''9'' (cp CHR ''1'')
     \<and> dig (cp CHR ''1'') \<and> dig (cp CHR ''9'') \<and> dig (cp CHR ''9'') \<and> dig (cp CHR ''0'')
     \<and> py_int [cp CHR ''1'', cp CHR ''9'', cp CHR ''9'', cp CHR ''0''] = Some 1990
     \<and> (1::int) \<le> 1990"
    by code_simp
  from birthday_day_and_month_need_no_padding
         [of "cp CHR ''5''" "cp CHR ''1''" "cp CHR ''1''" "cp CHR ''9''" "cp CHR ''9''"
             "cp CHR ''0''" 1990, rule_format, OF h]
  have "Birthday (py ''5.1.1990'') =
       Inr \<lparr>year = 1990, month = 1, day = 5, hour = 0, minute = 0, second = 0,
            microsecond = 0\<rparr>"
    by (simp add: py_def cp_def)
  with h show ?thesis by (simp add: py_def)
qed

section \<open>Upcoming birthdays\<close>

text \<open>
  What the loop computes. If it returns, the result is the names of the Records that pass
  the window test, in the order of the book; and it returns whenever every stored
  birthday is a date in the current year as well.
\<close>

lemma in_window_None: "birthday r = None \<Longrightarrow> \<not> in_window today nw r"
  by (simp add: in_window_def)

lemma in_window_Inl:
  "birthday r = Some bd \<Longrightarrow> replace_year bd (year today) = Inl e \<Longrightarrow> \<not> in_window today nw r"
  by (simp add: in_window_def)

lemma in_window_Inr:
  "birthday r = Some bd \<Longrightarrow> replace_year bd (year today) = Inr d \<Longrightarrow>
   in_window today nw r = (dt_le today d \<and> dt_lt d nw)"
  by (simp add: in_window_def)

lemma upcoming_loop_Inr:
  "upcoming_loop rs today nw acc = Inr names \<Longrightarrow>
   names = acc @ map name (filter (in_window today nw) rs)"
proof (induction rs arbitrary: acc)
  case Nil
  then show ?case by simp
next
  case (Cons r rs)
  then show ?case
    by (fastforce simp: in_window_None in_window_Inr split: option.splits sum.splits if_splits)
qed

lemma upcoming_loop_returns:
  "list_all (\<lambda>r. case birthday r of None \<Rightarrow> True
                 | Some bd \<Rightarrow> check_date_fields (year today) (month bd) (day bd) = Inr ()) rs \<Longrightarrow>
   upcoming_loop rs today nw acc = Inr (acc @ map name (filter (in_window today nw) rs))"
proof (induction rs arbitrary: acc)
  case Nil
  then show ?case by simp
next
  case (Cons r rs)
  then show ?case
    by (auto simp: in_window_None in_window_Inr replace_year_def split: option.splits sum.splits)
qed

lemma get_upcoming_birthdays_Inr:
  assumes "get_upcoming_birthdays today data = Inr names"
  shows "\<exists>nw. add_days today 7 = Inr nw
           \<and> names = map name (filter (in_window today nw) (map snd data))"
  using assms upcoming_loop_Inr [of "map snd data" today _ "[]" names]
  by (auto simp: get_upcoming_birthdays_def split: sum.splits)

lemma get_upcoming_birthdays_returns:
  assumes "add_days today 7 = Inr nw"
    and "list_all (\<lambda>r. case birthday r of None \<Rightarrow> True
            | Some bd \<Rightarrow> check_date_fields (year today) (month bd) (day bd) = Inr ())
          (map snd data)"
  shows "get_upcoming_birthdays today data
           = Inr (map name (filter (in_window today nw) (map snd data)))"
  using assms upcoming_loop_returns [of today "map snd data" nw "[]"]
  by (simp add: get_upcoming_birthdays_def)

text \<open>
  The examples of the specification, at the last microsecond of 2024-11-14: the
  anniversary 2024-11-15 is reported, 2024-11-25 is not, a Record without birthday is
  not.
\<close>

lemma upcoming_birthdays_examples_2024:
  "get_upcoming_birthdays
     \<lparr>year = 2024, month = 11, day = 14, hour = 23, minute = 59, second = 59,
        microsecond = 999999\<rparr>
     [(py ''Ann'', \<lparr>name = py ''Ann'', phones = [],
         birthday = Some \<lparr>year = 1990, month = 11, day = 15, hour = 0, minute = 0,
                           second = 0, microsecond = 0\<rparr>\<rparr>),
      (py ''Cid'', \<lparr>name = py ''Cid'', phones = [py ''1234567890''], birthday = None\<rparr>),
      (py ''Bob'', \<lparr>name = py ''Bob'', phones = [],
         birthday = Some \<lparr>year = 1990, month = 11, day = 25, hour = 0, minute = 0,
                           second = 0, microsecond = 0\<rparr>\<rparr>)]
   = Inr [py ''Ann'']"
  by code_simp

text \<open>
  C3. Claim: for every book and every "today", the result holds the name of a Record
  if and only if the Record has a birthday whose anniversary \<open>D\<close> in the current year
  satisfies \<open>today \<le> D < today + 7 days\<close>. The code breaks it on a book that also holds
  a birthday on Feb 29 when the current year is no leap year: on 2023-11-14 Ann's
  anniversary 2023-11-15 passes the window test, and a book with Ann alone reports
  her, but with Bob (born 29.02.2000) in the book the call raises and reports nobody.
\<close>

theorem upcoming_birthdays_lost_on_feb_29:
  "in_window
     \<lparr>year = 2023, month = 11, day = 14, hour = 0, minute = 0, second = 0, microsecond = 0\<rparr>
     \<lparr>year = 2023, month = 11, day = 21, hour = 0, minute = 0, second = 0, microsecond = 0\<rparr>
     \<lparr>name = py ''Ann'', phones = [],
        birthday = Some \<lparr>year = 1990, month = 11, day = 15, hour = 0, minute = 0,
                          second = 0, microsecond = 0\<rparr>\<rparr>
   \<and> get_upcoming_birthdays
       \<lparr>year = 2023, month = 11, day = 14, hour = 0, minute = 0, second = 0,
          microsecond = 0\<rparr>
       [(py ''Ann'', \<lparr>name = py ''Ann'', phones = [],
           birthday = Some \<lparr>year = 1990, month = 11, day = 15, hour = 0, minute = 0,
                             second = 0, microsecond = 0\<rparr>\<rparr>)]
     = Inr [py ''Ann'']
   \<and> get_upcoming_birthdays
       \<lparr>year = 2023, month = 11, day = 14, hour = 0, minute = 0, second = 0,
          microsecond = 0\<rparr>
       [(py ''Ann'', \<lparr>name = py ''Ann'', phones = [],
           birthday = Some \<lparr>year = 1990, month = 11, day = 15, hour = 0, minute = 0,
                             second = 0, microsecond = 0\<rparr>\<rparr>),
        (py ''Bob'', \<lparr>name = py ''Bob'', phones = [],
           birthday = Some \<lparr>year = 2000, month = 2, day = 29, hour = 0, minute = 0,
                             second = 0, microsecond = 0\<rparr>\<rparr>)]
     = Inl (ValueError ''day is out of range for month'')"
  by code_simp

text \<open>
  C5. Claim: a core operation fails only with a validation error or a boolean or absent
  result, also \<^verbatim>\<open>get_upcoming_birthdays\<close> on a book with a birthday on Feb 29 in a
  year that is no leap year. The code breaks it: 29.02.2000 is accepted as a birthday,
  and in 2023 \<^verbatim>\<open>replace(year=2023)\<close> raises the \<^verbatim>\<open>ValueError\<close> of the
  \<^verbatim>\<open>datetime\<close> constructor, which is none of the validation errors, out of
  \<^verbatim>\<open>get_upcoming_birthdays\<close>.
\<close>

theorem upcoming_birthdays_raises_on_feb_29:
  "add_birthday (py ''29.02.2000'') \<lparr>name = py ''Bob'', phones = [], birthday = None\<rparr>
     = (Inr (), \<lparr>name = py ''Bob'', phones = [],
          birthday = Some \<lparr>year = 2000, month = 2, day = 29, hour = 0, minute = 0,
                            second = 0, microsecond = 0\<rparr>\<rparr>)
   \<and> get_upcoming_birthdays
        \<lparr>year = 2023, month = 11, day = 14, hour = 9, minute = 30, second = 0,
           microsecond = 0\<rparr>
        (add_record
           \<lparr>name = py ''Bob'', phones = [],
              birthday = Some \<lparr>year = 2000, month = 2, day = 29, hour = 0, minute = 0,
                                second = 0, microsecond = 0\<rparr>\<rparr> [])
     = Inl (ValueError ''day is out of range for month'')
   \<and> ValueError ''day is out of range for month'' \<notin> set validation_errors"
  by code_simp

text \<open>
  The books that \<^verbatim>\<open>add_record\<close> and \<^verbatim>\<open>delete\<close> build from the empty book satisfy
  \<^const>\<open>book_ok\<close>, and in such a book a name belongs to one Record only.
\<close>

lemma book_ok_empty: "book_ok []"
  by (simp add: book_ok_def)

lemma set_update_cases:
  "(k', v') \<in> set (AList.update k v al) \<Longrightarrow> (k', v') = (k, v) \<or> (k', v') \<in> set al"
  by (induction al) (auto split: if_splits)

lemma book_ok_add_record: "book_ok b \<Longrightarrow> book_ok (add_record r b)"
  unfolding book_ok_def add_record_def list_all_iff
  by (auto simp: distinct_update dest: set_update_cases)

lemma book_ok_delete:
  assumes "book_ok b"
  shows "book_ok (snd (delete n b))"
proof -
  have sub: "set (AList.delete n b) \<subseteq> set b"
    by (auto simp: AList.delete_eq)
  from assms have "distinct (map fst (AList.delete n b))"
    by (simp add: book_ok_def distinct_delete)
  moreover from assms sub have "list_all (\<lambda>(k, r). k = name r) (AList.delete n b)"
    unfolding book_ok_def list_all_iff by blast
  ultimately show ?thesis
    using assms by (simp add: book_ok_def delete_def)
qed

lemma book_ok_same_name:
  assumes "book_ok data" and "(k, r) \<in> set data" and "(k', r') \<in> set data"
    and "name r' = name r"
  shows "r' = r"
proof -
  from assms(1,2,3) have "k = name r" "k' = name r'"
    by (auto simp: book_ok_def list_all_iff)
  with assms(4) have "k' = k" by simp
  with assms(1,2,3) show ?thesis
    by (auto simp: book_ok_def dest: eq_key_imp_eq_value)
qed

text \<open>A stored birthday is at midnight, and "now" after midnight is later than midnight.\<close>

lemma strptime_midnight:
  "strptime s = Some b \<Longrightarrow>
   hour b = 0 \<and> minute b = 0 \<and> second b = 0 \<and> microsecond b = 0"
  by (auto simp: strptime_def split: list.splits prod.splits if_splits sum.splits option.splits)

lemma Birthday_midnight:
  "Birthday s = Inr b \<Longrightarrow>
   hour b = 0 \<and> minute b = 0 \<and> second b = 0 \<and> microsecond b = 0"
  using strptime_midnight [of s b]
  by (auto simp: Birthday_def validate_birthday_def split: option.splits)

lemma same_day_not_le:
  assumes "after_midnight today"
    and "hour b = 0 \<and> minute b = 0 \<and> second b = 0 \<and> microsecond b = 0"
    and "month b = month today" and "day b = day today"
  shows "\<not> dt_le today (b\<lparr>year := year today\<rparr>)"
  using assms by (auto simp: dt_le_def dt_fields_def after_midnight_def time_ok_def)

text \<open>
  C9. A Record whose birthday (created by \<^verbatim>\<open>Birthday\<close>) has the month and day of
  "now" is not in the result when "now" is after midnight: the anniversary is midnight
  of that day, which is before "now".
\<close>

theorem same_day_birthday_excluded_after_midnight:
  assumes "book_ok data" and "(k, r) \<in> set data"
    and "Birthday s = Inr b" and "birthday r = Some b"
    and "month b = month today" and "day b = day today"
    and "after_midnight today"
    and "get_upcoming_birthdays today data = Inr names"
  shows "name r \<notin> set names"
proof
  assume in_names: "name r \<in> set names"
  from assms(8) obtain nw where
    nw: "upcoming_loop (map snd data) today nw [] = Inr names"
    by (auto simp: get_upcoming_birthdays_def split: sum.splits)
  from upcoming_loop_Inr [OF nw]
  have "names = map name (filter (in_window today nw) (map snd data))" by simp
  with in_names obtain k' r' where
    r': "(k', r') \<in> set data" "in_window today nw r'" "name r' = name r"
    by auto
  from book_ok_same_name [OF assms(1) assms(2) r'(1) r'(3)] have "r' = r" .
  with r'(2) assms(4) have "dt_le today (b\<lparr>year := year today\<rparr>)"
    by (auto simp: in_window_def replace_year_def split: sum.splits)
  moreover have "\<not> dt_le today (b\<lparr>year := year today\<rparr>)"
    using same_day_not_le [OF assms(7) Birthday_midnight [OF assms(3)] assms(5) assms(6)] .
  ultimately show False by simp
qed

theorem same_day_birthday_excluded_after_midnight_witness:
  "book_ok
     [(py ''John'', \<lparr>name = py ''John'', phones = [],
         birthday = Some \<lparr>year = 1990, month = 11, day = 14, hour = 0, minute = 0,
                           second = 0, microsecond = 0\<rparr>\<rparr>),
      (py ''Jane'', \<lparr>name = py ''Jane'', phones = [],
         birthday = Some \<lparr>year = 1992, month = 11, day = 15, hour = 0, minute = 0,
                           second = 0, microsecond = 0\<rparr>\<rparr>)]
   \<and> Birthday (py ''14.11.1990'') =
       Inr \<lparr>year = 1990, month = 11, day = 14, hour = 0, minute = 0, second = 0,
            microsecond = 0\<rparr>
   \<and> after_midnight
       \<lparr>year = 2024, month = 11, day = 14, hour = 0, minute = 0, second = 0,
          microsecond = 1\<rparr>
   \<and> get_upcoming_birthdays
       \<lparr>year = 2024, month = 11, day = 14, hour = 0, minute = 0, second = 0,
          microsecond = 1\<rparr>
       [(py ''John'', \<lparr>name = py ''John'', phones = [],
           birthday = Some \<lparr>year = 1990, month = 11, day = 14, hour = 0, minute = 0,
                             second = 0, microsecond = 0\<rparr>\<rparr>),
        (py ''Jane'', \<lparr>name = py ''Jane'', phones = [],
           birthday = Some \<lparr>year = 1992, month = 11, day = 15, hour = 0, minute = 0,
                             second = 0, microsecond = 0\<rparr>\<rparr>)]
     = Inr [py ''Jane'']
   \<and> (py ''John'') \<notin> set [py ''Jane'']"
proof -
  let ?bJ = "\<lparr>year = 1990, month = 11, day = 14, hour = 0, minute = 0, second = 0,
               microsecond = 0\<rparr>"
  let ?john = "\<lparr>name = py ''John'', phones = [], birthday = Some ?bJ\<rparr>"
  let ?jane = "\<lparr>name = py ''Jane'', phones = [],
       birthday = Some \<lparr>year = 1992, month = 11, day = 15, hour = 0, minute = 0,
                         second = 0, microsecond = 0\<rparr>\<rparr>"
  let ?data = "[(py ''John'', ?john), (py ''Jane'', ?jane)]"
  let ?today = "\<lparr>year = 2024, month = 11, day = 14, hour = 0, minute = 0, second = 0,
                  microsecond = 1\<rparr>"
  have h1: "book_ok ?data" by code_simp
  have h2: "(py ''John'', ?john) \<in> set ?data" by simp
  have h3: "Birthday (py ''14.11.1990'') = Inr ?bJ" by code_simp
  have h4: "birthday ?john = Some ?bJ" by simp
  have h5: "month ?bJ = month ?today" by simp
  have h6: "day ?bJ = day ?today" by simp
  have h7: "after_midnight ?today" by code_simp
  have h8: "get_upcoming_birthdays ?today ?data = Inr [py ''Jane'']" by code_simp
  from same_day_birthday_excluded_after_midnight [OF h1 h2 h3 h4 h5 h6 h7 h8]
  have "name ?john \<notin> set [py ''Jane'']" .
  with h1 h3 h7 h8 show ?thesis by simp
qed

end
